theory Spec2Isabelle
  imports Complex_Main "HOL-Library.Char_ord" "HOL-Library.List_Lexorder"
begin

section \<open>The DHI/Fissures client of obspy.fissures (client.py)\<close>

text \<open>
  A shallow embedding of \<^verbatim>\<open>obspy/fissures/client.py\<close>. Python exceptions are values of
  the type \<open>error\<close>; a method that talks to a remote service or emits a warning returns,
  beside its result, the list of the events it caused, in order. Python floats are read
  as real numbers (no rounding, no overflow). A remote method is a function of its
  arguments that may fail.
\<close>

subsection \<open>Exceptions, warnings and remote calls\<close>

datatype error =
    FissuresException string
  | NotImplementedError string
  | AttributeError string
  | ZeroDivisionError
  | ValueError string
  | NotFoundError string
  | CollaboratorError string

datatype category = FissuresWarning | UserWarning

text \<open>Identifiers of the remote objects, as far as the client reads them.\<close>

record NetworkId =
  network_code :: string

record ChannelId =
  cid_network_id :: NetworkId
  station_code :: string
  site_code :: string
  channel_code :: string

record StationId =
  sta_station_code :: string

text \<open>\<^verbatim>\<open>Fissures.IfSeismogramDC.RequestFilter(c.id, t1, t2)\<close>; a Fissures time is held
  as its \<^verbatim>\<open>date_time\<close> string.\<close>

record RequestFilter =
  req_channel_id :: ChannelId
  req_start_time :: string
  req_end_time :: string

datatype event =
    Warn category string
  | Retrieve_by_code string
  | Retrieve_channels_by_code string string string
  | Retrieve_seismograms "RequestFilter list"
  | Retrieve_stations
  | Retrieve_for_station StationId
  | Retrieve_instrumentation ChannelId string

type_synonym 'a io = "(error + 'a) \<times> event list"

definition ret :: "'a \<Rightarrow> 'a io" where
  "ret x = (Inr x, [])"

definition raise :: "error \<Rightarrow> 'a io" where
  "raise e = (Inl e, [])"

definition warn :: "category \<Rightarrow> string \<Rightarrow> unit io" where
  "warn c msg = (Inr (), [Warn c msg])"

text \<open>A remote call: the event is recorded, then the call returns or fails.\<close>

definition remote :: "event \<Rightarrow> error + 'a \<Rightarrow> 'a io" where
  "remote ev r = (r, [ev])"

text \<open>A local collaborator (codec, library routine): no event.\<close>

definition lift :: "error + 'a \<Rightarrow> 'a io" where
  "lift r = (r, [])"

text \<open>Sequencing: an exception skips the rest; the events of both parts are kept, in order.\<close>

definition bind :: "'a io \<Rightarrow> ('a \<Rightarrow> 'b io) \<Rightarrow> 'b io" where
  "bind m f =
     (case m of
        (Inl e, evs) \<Rightarrow> (Inl e, evs)
      | (Inr x, evs) \<Rightarrow> (case f x of (r, evs') \<Rightarrow> (r, evs @ evs')))"

subsection \<open>Python string operations used by the client\<close>

text \<open>\<^verbatim>\<open>s.find(c)\<close> for a one-character needle: the index of the first occurrence,
  \<open>-1\<close> when there is none.\<close>

fun str_find :: "string \<Rightarrow> char \<Rightarrow> int" where
  "str_find [] c = - 1"
| "str_find (x # xs) c =
     (if x = c then 0
      else (let r = str_find xs c in if r < 0 then - 1 else r + 1))"

text \<open>\<^verbatim>\<open>s.replace(a, b)\<close> for one-character \<open>a\<close> and \<open>b\<close>.\<close>

definition str_replace :: "string \<Rightarrow> char \<Rightarrow> char \<Rightarrow> string" where
  "str_replace s a b = map (\<lambda>x. if x = a then b else x) s"

text \<open>\<^verbatim>\<open>s.strip()\<close>: leading and trailing white space removed.\<close>

definition is_space :: "char \<Rightarrow> bool" where
  "is_space c = (c \<in> set [CHR '' '', CHR 0x09, CHR 0x0A, CHR 0x0B, CHR 0x0C, CHR 0x0D])"

definition strip :: "string \<Rightarrow> string" where
  "strip s = rev (dropWhile is_space (rev (dropWhile is_space s)))"

text \<open>\<^verbatim>\<open>"%d" % n\<close>.\<close>

fun show_nat :: "nat \<Rightarrow> string" where
  "show_nat n =
     (if n < 10 then [''0123456789'' ! n]
      else show_nat (n div 10) @ [''0123456789'' ! (n mod 10)])"

declare show_nat.simps [simp del]

definition show_int :: "int \<Rightarrow> string" where
  "show_int i = (if i < 0 then CHR ''-'' # show_nat (nat (- i)) else show_nat (nat i))"

subsection \<open>Remote data, as the client reads it\<close>

text \<open>One chunk of \<^verbatim>\<open>sei.data.encoded_values\<close>.\<close>

record EncodedData =
  byte_order :: bool
  compression :: int
  chunk_values :: "nat list"
  chunk_num_points :: int

text \<open>A seismogram (segment). The fields of \<^verbatim>\<open>sampling_info.interval\<close> and of its
  \<^verbatim>\<open>the_units\<close> are flattened: \<open>interval_value\<close> is \<^verbatim>\<open>interval.value\<close>,
  \<open>the_unit_base\<close>, \<open>power\<close>, \<open>multi_factor\<close> and \<open>exponent\<close> are those of
  \<^verbatim>\<open>interval.the_units\<close>; \<open>begin_time\<close> is \<^verbatim>\<open>begin_time.date_time\<close>.\<close>

record LocalSeismogram =
  num_points :: int
  begin_time :: string
  the_unit_base :: string
  interval_value :: real
  power :: int
  multi_factor :: real
  exponent :: int
  sei_channel_id :: ChannelId
  encoded_values :: "EncodedData list"

record Channel =
  cha_id :: ChannelId

text \<open>A station: \<^verbatim>\<open>id\<close>, the \<^verbatim>\<open>date_time\<close> strings of \<^verbatim>\<open>effective_time.start_time\<close>
  and \<^verbatim>\<open>effective_time.end_time\<close>, and \<^verbatim>\<open>my_location\<close> flattened.\<close>

record Location =
  elevation_value :: real
  elevation_unit_name :: string
  loc_type :: string
  latitude :: real
  longitude :: real

record Station =
  sta_id :: StationId
  start_time :: string
  end_time :: string
  my_location :: Location

record PoleZeroFilter =
  pz_poles :: "complex list"
  pz_zeros :: "complex list"

text \<open>A member of \<^verbatim>\<open>stage.filters\<close>: a union with discriminator \<^verbatim>\<open>_d\<close> and
  content \<^verbatim>\<open>_v\<close>.\<close>

record Filter =
  filter_d :: string
  filter_v :: PoleZeroFilter

record Normalization =
  ao_normalization_factor :: real

record Stage =
  stage_filters :: "Filter list"
  the_normalization :: "Normalization list"

record Response =
  stages :: "Stage list"
  sensitivity_factor :: real

record Instrumentation =
  the_response :: Response

subsection \<open>The remote services and the local collaborators\<close>

record NetworkAccess =
  retrieve_stations :: "error + Station list"
  retrieve_for_station :: "StationId \<Rightarrow> error + Channel list"
  retrieve_channels_by_code :: "string \<Rightarrow> string \<Rightarrow> string \<Rightarrow> error + Channel list"
  retrieve_instrumentation :: "ChannelId \<Rightarrow> string \<Rightarrow> error + Instrumentation"

record NetworkFinder =
  retrieve_by_code :: "string \<Rightarrow> error + NetworkAccess list"

record DataCenter =
  retrieve_seismograms :: "RequestFilter list \<Rightarrow> error + LocalSeismogram list"

text \<open>\<^verbatim>\<open>obspy.mseed.libmseed.LibMSEED\<close>: bytes, number of samples and swap flag.\<close>

record LibMSEED =
  unpack_steim1 :: "nat list \<Rightarrow> int \<Rightarrow> bool \<Rightarrow> error + int list"
  unpack_steim2 :: "nat list \<Rightarrow> int \<Rightarrow> bool \<Rightarrow> error + int list"

subsection \<open>The records the client builds\<close>

record PAZ =
  poles :: "complex list"
  zeros :: "complex list"
  gain :: real
  sensitivity :: real

record Coordinates =
  elevation :: real
  coord_latitude :: real
  coord_longitude :: real

text \<open>A \<^verbatim>\<open>Trace\<close> with the entries of its \<^verbatim>\<open>stats\<close>; \<open>None\<close> is a key of
  \<^verbatim>\<open>stats\<close> that was never set. A \<^verbatim>\<open>Stream\<close> is the list of its traces; a point in
  time (\<^verbatim>\<open>UTCDateTime\<close>) is a time stamp.\<close>

record Trace =
  starttime :: string
  npts :: int
  sampling_rate :: real
  station :: string
  network :: string
  channel :: string
  location :: string
  data :: "int list"
  paz :: "PAZ option"
  coordinates :: "Coordinates option"

type_synonym UTCDateTime = int

text \<open>The routines of \<^verbatim>\<open>obspy.core\<close> and \<^verbatim>\<open>obspy.fissures.util\<close> that the client calls
  and whose code is not part of the file: parameters of the model.\<close>

record Lib =
  verify :: "Trace \<Rightarrow> error + unit"
  trim :: "UTCDateTime \<Rightarrow> UTCDateTime \<Rightarrow> Trace list \<Rightarrow> error + Trace list"
  formatFissures :: "UTCDateTime \<Rightarrow> string"
  utcdatetime2Fissures :: "UTCDateTime \<Rightarrow> string"
  poleZeroFilter2PAZ :: "PoleZeroFilter \<Rightarrow> PAZ"

text \<open>An attribute of the client object: never assigned, assigned \<^verbatim>\<open>None\<close>, or assigned
  an object.\<close>

datatype 'a attr = Unset | PyNone | Ref 'a

record Client =
  byteorder :: bool
  mseed :: LibMSEED
  netFind :: "NetworkFinder attr"
  seisDC :: "DataCenter attr"

text \<open>Reading \<^verbatim>\<open>self.name\<close> fails when the attribute was never assigned.\<close>

definition getattr :: "string \<Rightarrow> 'a attr \<Rightarrow> error + 'a attr" where
  "getattr name a = (case a of Unset \<Rightarrow> Inl (AttributeError name) | _ \<Rightarrow> Inr a)"

text \<open>The truth value of an attribute's content: \<^verbatim>\<open>None\<close> is false, an object
  reference is true.\<close>

fun truthy :: "'a attr \<Rightarrow> bool" where
  "truthy (Ref x) = True"
| "truthy _ = False"

text \<open>\<^verbatim>\<open>self.name.method\<close>: fails when the attribute was never assigned, and when it
  holds \<^verbatim>\<open>None\<close>, which has no such method.\<close>

definition method_of :: "string \<Rightarrow> string \<Rightarrow> 'a attr \<Rightarrow> error + 'a" where
  "method_of name meth a =
     (case a of
        Unset \<Rightarrow> Inl (AttributeError name)
      | PyNone \<Rightarrow> Inl (AttributeError meth)
      | Ref x \<Rightarrow> Inr x)"

subsection \<open>The helper of obspy.fissures.util\<close>

text \<open>Modelled from the spec: \<^verbatim>\<open>use_first_and_raise_or_warn\<close> of
  \<^verbatim>\<open>obspy.fissures.util\<close>, whose code is not part of the file. The spec: each
  "take first of list" step fails with NotFoundError if the candidate list is empty, and
  emits a warning (but proceeds using the first element) if more than one candidate
  matches. The second argument is the label of the error and of the warning.\<close>

fun use_first_and_raise_or_warn :: "'a list \<Rightarrow> string \<Rightarrow> 'a io" where
  "use_first_and_raise_or_warn [] type_str = raise (NotFoundError type_str)"
| "use_first_and_raise_or_warn [x] type_str = ret x"
| "use_first_and_raise_or_warn (x # y # ys) type_str =
     bind (warn FissuresWarning type_str) (\<lambda>_. ret x)"

subsection \<open>Channel, seismogram and station objects\<close>

text \<open>\<^verbatim>\<open>Client._getChannelObj\<close>. \<^verbatim>\<open>_narrow\<close> is read as the identity.\<close>

definition getChannelObj ::
  "Client \<Rightarrow> string \<Rightarrow> string \<Rightarrow> string \<Rightarrow> string \<Rightarrow> Channel list io" where
  "getChannelObj self network_id station_id location_id channel_id =
     bind (lift (method_of ''netFind'' ''retrieve_by_code'' (netFind self))) (\<lambda>finder.
     bind (remote (Retrieve_by_code network_id) (retrieve_by_code finder network_id)) (\<lambda>nets.
     bind (use_first_and_raise_or_warn nets ''network'') (\<lambda>net.
       (let location_id = (if strip location_id = [] then ''  '' else location_id)
        in remote (Retrieve_channels_by_code station_id location_id channel_id)
             (retrieve_channels_by_code net station_id location_id channel_id)))))"

text \<open>\<^verbatim>\<open>Client._getSeisObj\<close>.\<close>

definition getSeisObj ::
  "Lib \<Rightarrow> Client \<Rightarrow> Channel list \<Rightarrow> UTCDateTime \<Rightarrow> UTCDateTime \<Rightarrow> LocalSeismogram list io" where
  "getSeisObj lib self channel_obj start_datetime end_datetime =
     (let t1 = utcdatetime2Fissures lib start_datetime;
          t2 = utcdatetime2Fissures lib end_datetime;
          request = map (\<lambda>c. \<lparr>req_channel_id = cha_id c, req_start_time = t1,
                               req_end_time = t2\<rparr>) channel_obj
      in bind (lift (method_of ''seisDC'' ''retrieve_seismograms'' (seisDC self))) (\<lambda>dc.
           remote (Retrieve_seismograms request) (retrieve_seismograms dc request)))"

text \<open>The list comprehension of \<^verbatim>\<open>Client._getStationObj\<close>: \<open>datetime\<close> is the
  formatted string, compared with the stations' strings as Python compares strings.\<close>

definition station_candidates :: "string \<Rightarrow> string \<Rightarrow> Station list \<Rightarrow> Station list" where
  "station_candidates station_id datetime stations =
     filter (\<lambda>sta. station_id = sta_station_code (sta_id sta)
                   \<and> datetime > start_time sta
                   \<and> datetime < end_time sta) stations"

text \<open>\<^verbatim>\<open>Client._getStationObj\<close>.\<close>

definition getStationObj ::
  "Lib \<Rightarrow> Client \<Rightarrow> string \<Rightarrow> string \<Rightarrow> UTCDateTime \<Rightarrow> Station io" where
  "getStationObj lib self network_id station_id datetime =
     bind (lift (method_of ''netFind'' ''retrieve_by_code'' (netFind self))) (\<lambda>finder.
     bind (remote (Retrieve_by_code network_id) (retrieve_by_code finder network_id)) (\<lambda>nets.
     bind (use_first_and_raise_or_warn nets ''network'') (\<lambda>net.
       (let datetime = formatFissures lib datetime
        in bind (remote Retrieve_stations (retrieve_stations net)) (\<lambda>stas.
             use_first_and_raise_or_warn (station_candidates station_id datetime stas)
               ''station'')))))"

subsection \<open>Coordinates and response\<close>

text \<open>\<^verbatim>\<open>Client.getCoordinates\<close>.\<close>

definition getCoordinates ::
  "Lib \<Rightarrow> Client \<Rightarrow> string \<Rightarrow> string \<Rightarrow> UTCDateTime \<Rightarrow> Coordinates io" where
  "getCoordinates lib self network_id station_id datetime =
     bind (getStationObj lib self network_id station_id datetime) (\<lambda>sta.
       (let loc = my_location sta;
            unit = elevation_unit_name loc
        in bind (if unit \<noteq> ''METER''
                 then warn UserWarning (''Elevation not meter but '' @ unit @ ''.'')
                 else ret ()) (\<lambda>_.
             if loc_type loc \<noteq> ''GEOGRAPHIC''
             then raise (NotImplementedError
                    (''Location types != '' @ [CHR 0x22] @ ''GEOGRAPHIC'' @ [CHR 0x22]
                       @ '' are not yet implemented (type: '' @ [CHR 0x22] @ loc_type loc
                       @ [CHR 0x22] @ '').'' @ [CHR 0x0A]
                       @ ''Please report the code that resulted in this error!''))
             else ret \<lparr>elevation = elevation_value loc, coord_latitude = latitude loc,
                        coord_longitude = longitude loc\<rparr>)))"

text \<open>The default of the parameter \<^verbatim>\<open>channel_id\<close> of \<^verbatim>\<open>Client.getPAZ\<close>.\<close>

definition getPAZ_default_channel_id :: string where
  "getPAZ_default_channel_id = ''BHZ''"

text \<open>\<^verbatim>\<open>Client.getPAZ\<close>.\<close>

definition getPAZ ::
  "Lib \<Rightarrow> Client \<Rightarrow> string \<Rightarrow> string \<Rightarrow> string \<Rightarrow> UTCDateTime \<Rightarrow> PAZ io" where
  "getPAZ lib self network_id station_id channel_id datetime =
     (if CHR ''*'' \<in> set channel_id
      then raise (FissuresException ''Wildcards not allowed in channel_id'')
      else
        bind (lift (method_of ''netFind'' ''retrieve_by_code'' (netFind self))) (\<lambda>finder.
        bind (remote (Retrieve_by_code network_id) (retrieve_by_code finder network_id)) (\<lambda>nets.
        bind (use_first_and_raise_or_warn nets ''network'') (\<lambda>net.
        bind (remote Retrieve_stations (retrieve_stations net)) (\<lambda>stas.
        bind (use_first_and_raise_or_warn
                (filter (\<lambda>sta. sta_station_code (sta_id sta) = station_id) stas)
                ''station'') (\<lambda>sta.
        bind (remote (Retrieve_for_station (sta_id sta))
                (retrieve_for_station net (sta_id sta))) (\<lambda>chas.
        bind (use_first_and_raise_or_warn
                (filter (\<lambda>cha. channel_code (cha_id cha) = channel_id) chas)
                ''channel'') (\<lambda>cha.
          (let datetime = utcdatetime2Fissures lib datetime
           in bind (remote (Retrieve_instrumentation (cha_id cha) datetime)
                      (retrieve_instrumentation net (cha_id cha) datetime)) (\<lambda>inst.
                (let resp = the_response inst
                 in bind (use_first_and_raise_or_warn (stages resp) ''response stage'') (\<lambda>stage.
                      (let filters = map filter_v
                             (filter (\<lambda>f. filter_d f = ''POLEZERO'') (stage_filters stage))
                       in bind (use_first_and_raise_or_warn filters ''polezerofilter'') (\<lambda>flt.
                            (let paz = poleZeroFilter2PAZ lib flt
                             in bind (use_first_and_raise_or_warn (the_normalization stage)
                                        ''normalization'') (\<lambda>norm.
                                  ret (paz\<lparr>gain := ao_normalization_factor norm,
                                           sensitivity := sensitivity_factor resp\<rparr>)))))))))))))))))"

subsection \<open>Waveforms\<close>

text \<open>The sampling rate of a seismogram (\<^verbatim>\<open>delta = pow(value * pow(10, power) *
  multi_factor, exponent)\<close>, \<^verbatim>\<open>sr = sei.num_points / float(delta)\<close>). Python raises
  ZeroDivisionError for a zero base with a negative exponent, and for a division by
  zero.\<close>

definition sampling_rate_of :: "LocalSeismogram \<Rightarrow> error + real" where
  "sampling_rate_of sei =
     (let val = interval_value sei;
          base = val * (10 powi power sei) * multi_factor sei
      in if base = 0 \<and> exponent sei < 0 then Inl ZeroDivisionError
         else (let delta = base powi exponent sei
               in if delta = 0 then Inl ZeroDivisionError
                  else Inr (real_of_int (num_points sei) / delta)))"

text \<open>One chunk: the swap flag and the choice of the codec routine.\<close>

definition decode_chunk :: "Client \<Rightarrow> EncodedData \<Rightarrow> error + int list" where
  "decode_chunk self chunk =
     (let swapflag = (byteorder self \<noteq> byte_order chunk);
          compr = compression chunk
      in if compr = 11
         then unpack_steim2 (mseed self) (chunk_values chunk) (chunk_num_points chunk) swapflag
         else if compr = 10
         then unpack_steim1 (mseed self) (chunk_values chunk) (chunk_num_points chunk) swapflag
         else Inl (NotImplementedError
                (''Compression '' @ show_int compr @ '' not implemented'')))"

text \<open>The loop over the chunks of a seismogram; \<open>acc\<close> is the list \<^verbatim>\<open>data\<close>.\<close>

fun decode_chunks :: "Client \<Rightarrow> EncodedData list \<Rightarrow> int list list \<Rightarrow> error + int list list" where
  "decode_chunks self [] acc = Inr acc"
| "decode_chunks self (chunk # rest) acc =
     (case decode_chunk self chunk of
        Inl e \<Rightarrow> Inl e
      | Inr d \<Rightarrow> decode_chunks self rest (acc @ [d]))"

text \<open>\<^verbatim>\<open>np.concatenate\<close> refuses an empty list of arrays.\<close>

definition np_concatenate :: "int list list \<Rightarrow> error + int list" where
  "np_concatenate arrays =
     (if arrays = [] then Inl (ValueError ''need at least one array to concatenate'')
      else Inr (concat arrays))"

text \<open>The body of the loop over the seismograms: \<open>None\<close> is \<^verbatim>\<open>continue\<close>, \<open>Some tr\<close>
  the trace that is appended to the stream.\<close>

definition seis2trace :: "Lib \<Rightarrow> Client \<Rightarrow> LocalSeismogram \<Rightarrow> error + Trace option" where
  "seis2trace lib self sei =
     (if num_points sei = 0 then Inr None
      else if the_unit_base sei \<noteq> ''SECOND'' then Inl (FissuresException ''Wrong unit!'')
      else
        (case sampling_rate_of sei of
           Inl e \<Rightarrow> Inl e
         | Inr sr \<Rightarrow>
            (case decode_chunks self (encoded_values sei) [] of
               Inl e \<Rightarrow> Inl e
             | Inr chunks \<Rightarrow>
                (case np_concatenate chunks of
                   Inl e \<Rightarrow> Inl e
                 | Inr samples \<Rightarrow>
                    (let tr = \<lparr>starttime = begin_time sei,
                               npts = num_points sei,
                               sampling_rate = sr,
                               station = station_code (sei_channel_id sei),
                               network = network_code (cid_network_id (sei_channel_id sei)),
                               channel = channel_code (sei_channel_id sei),
                               location = strip (site_code (sei_channel_id sei)),
                               data = samples,
                               paz = None,
                               coordinates = None\<rparr>
                     in (case verify lib tr of
                           Inl e \<Rightarrow> Inl e
                         | Inr _ \<Rightarrow> Inr (Some tr)))))))"

text \<open>The loop over the seismograms; \<open>st\<close> is the stream built so far.\<close>

fun build_stream :: "Lib \<Rightarrow> Client \<Rightarrow> LocalSeismogram list \<Rightarrow> Trace list \<Rightarrow> error + Trace list" where
  "build_stream lib self [] st = Inr st"
| "build_stream lib self (sei # seis) st =
     (case seis2trace lib self sei of
        Inl e \<Rightarrow> Inl e
      | Inr None \<Rightarrow> build_stream lib self seis st
      | Inr (Some tr) \<Rightarrow> build_stream lib self seis (st @ [tr]))"

text \<open>The loop of the wildcard branch: \<^verbatim>\<open>st += self.getWaveform(channel_id=cha, ...)\<close>
  for each \<open>cha\<close>; \<open>f\<close> is the recursive call.\<close>

fun for_cha :: "(string \<Rightarrow> Trace list io) \<Rightarrow> string list \<Rightarrow> Trace list \<Rightarrow> Trace list io" where
  "for_cha f [] st = ret st"
| "for_cha f (cha # chas) st = bind (f cha) (\<lambda>r. for_cha f chas (st @ r))"

lemma for_cha_cong [fundef_cong]:
  "chas = chas' \<Longrightarrow> st = st' \<Longrightarrow> (\<And>cha. cha \<in> set chas' \<Longrightarrow> f cha = g cha)
   \<Longrightarrow> for_cha f chas st = for_cha g chas' st'"
  by (induction chas' arbitrary: chas st st') auto

text \<open>The test of the wildcard branch.\<close>

definition component_wildcard :: "string \<Rightarrow> bool" where
  "component_wildcard channel_id = (length channel_id = 3 \<and> str_find channel_id CHR ''*'' = 2)"

lemma component_wildcard_shape:
  "component_wildcard c = (\<exists>a b. c = [a, b, CHR ''*''] \<and> a \<noteq> CHR ''*'' \<and> b \<noteq> CHR ''*'')"
proof
  assume "component_wildcard c"
  then have len: "length c = 3" and f: "str_find c CHR ''*'' = 2"
    by (simp_all add: component_wildcard_def)
  from len obtain a b d where c: "c = [a, b, d]"
    by (auto simp: numeral_3_eq_3 length_Suc_conv)
  with f show "\<exists>a b. c = [a, b, CHR ''*''] \<and> a \<noteq> CHR ''*'' \<and> b \<noteq> CHR ''*''"
    by (auto simp: Let_def split: if_splits)
next
  assume "\<exists>a b. c = [a, b, CHR ''*''] \<and> a \<noteq> CHR ''*'' \<and> b \<noteq> CHR ''*''"
  then show "component_wildcard c"
    by (auto simp: component_wildcard_def Let_def)
qed

lemma component_wildcard_expanded:
  "component_wildcard c \<Longrightarrow> component \<in> set [''Z'', ''N'', ''E'']
   \<Longrightarrow> \<not> component_wildcard (take 2 c @ component)"
  by (auto simp: component_wildcard_shape)

text \<open>\<^verbatim>\<open>Client.getWaveform\<close>. The recursive call passes every argument but the channel
  code as it was received.\<close>

function getWaveform ::
  "Lib \<Rightarrow> Client \<Rightarrow> string \<Rightarrow> string \<Rightarrow> string \<Rightarrow> string \<Rightarrow> UTCDateTime \<Rightarrow> UTCDateTime
   \<Rightarrow> bool \<Rightarrow> bool \<Rightarrow> Trace list io" where
  "getWaveform lib self network_id station_id location_id channel_id start_datetime
     end_datetime getPAZ_flag getCoordinates_flag =
     (if component_wildcard channel_id
      then for_cha (\<lambda>cha. getWaveform lib self network_id station_id location_id cha
                            start_datetime end_datetime getPAZ_flag getCoordinates_flag)
             (map (\<lambda>component. take 2 channel_id @ component) [''Z'', ''N'', ''E'']) []
      else
        bind (getChannelObj self network_id station_id location_id channel_id) (\<lambda>channels.
        bind (getSeisObj lib self channels start_datetime end_datetime) (\<lambda>seis.
        bind (lift (build_stream lib self seis [])) (\<lambda>st.
        bind (lift (trim lib start_datetime end_datetime st)) (\<lambda>st.
        bind (if getPAZ_flag
              then
                bind (if CHR ''*'' \<in> set channel_id
                      then (if length channel_id < 3
                            then raise (FissuresException
                                   ''Cannot fetch PAZ with wildcarded band codes.'')
                            else warn FissuresWarning
                                   (''Wildcard in channel_id, trying to look up Z ''
                                      @ ''components PAZ information''))
                      else ret ()) (\<lambda>_.
                bind (getPAZ lib self network_id station_id getPAZ_default_channel_id
                        start_datetime) (\<lambda>resp.
                  ret (map (\<lambda>tr. tr\<lparr>paz := Some resp\<rparr>) st)))
              else ret st) (\<lambda>st.
          if getCoordinates_flag
          then bind (getCoordinates lib self network_id station_id start_datetime) (\<lambda>coords.
                 ret (map (\<lambda>tr. tr\<lparr>coordinates := Some coords\<rparr>) st))
          else ret st))))))"
  by pat_completeness auto
termination
proof (relation "measure (\<lambda>(lib, self, network_id, station_id, location_id, channel_id, rest).
                            if component_wildcard channel_id then 1 else 0)")
  show "wf (measure (\<lambda>(lib, self, network_id, station_id, location_id, channel_id, rest).
                       if component_wildcard channel_id then 1 else (0::nat)))"
    by simp
next
  fix lib :: Lib and self :: Client and network_id station_id location_id channel_id :: string
    and start_datetime end_datetime :: UTCDateTime and getPAZ_flag getCoordinates_flag :: bool
    and cha :: string
  assume w: "component_wildcard channel_id"
    and m: "cha \<in> set (map (\<lambda>component. take 2 channel_id @ component) [''Z'', ''N'', ''E''])"
  from m obtain component where "component \<in> set [''Z'', ''N'', ''E'']" and "cha = take 2 channel_id @ component"
    by auto
  with w have "\<not> component_wildcard cha"
    using component_wildcard_expanded by blast
  with w show "((lib, self, network_id, station_id, location_id, cha, start_datetime,
                 end_datetime, getPAZ_flag, getCoordinates_flag),
                lib, self, network_id, station_id, location_id, channel_id, start_datetime,
                end_datetime, getPAZ_flag, getCoordinates_flag)
               \<in> measure (\<lambda>(lib, self, network_id, station_id, location_id, channel_id, rest).
                            if component_wildcard channel_id then 1 else 0)"
    by simp
qed

declare getWaveform.simps [simp del]

subsection \<open>Construction\<close>

text \<open>\<^verbatim>\<open>Client.__init__\<close> from the resolution of the naming service on. The arguments
  stand for what the CORBA calls do: \<open>narrow_root\<close> for narrowing the root context, and
  \<open>resolve_netFind\<close> and \<open>resolve_seisDC\<close> for the bodies of the two \<^verbatim>\<open>try\<close> blocks,
  each either an exception or the value assigned to the attribute (\<open>None\<close> when the
  last \<^verbatim>\<open>_narrow\<close> returns \<^verbatim>\<open>None\<close>). An attribute is assigned only when the body of
  its \<^verbatim>\<open>try\<close> block completes.\<close>

definition attr_of :: "'a option \<Rightarrow> 'a attr" where
  "attr_of v = (case v of None \<Rightarrow> PyNone | Some x \<Rightarrow> Ref x)"

definition Client_init ::
  "bool \<Rightarrow> LibMSEED \<Rightarrow> string \<Rightarrow> error + unit \<Rightarrow> error + NetworkFinder option
   \<Rightarrow> error + DataCenter option \<Rightarrow> Client io" where
  "Client_init little mseed_lib name_service narrow_root resolve_netFind resolve_seisDC =
     (let self = \<lparr>byteorder = little, mseed = mseed_lib, netFind = Unset, seisDC = Unset\<rparr>
      in case narrow_root of
           Inl e \<Rightarrow> raise (FissuresException (''Could not connect to '' @ name_service))
         | Inr _ \<Rightarrow>
            bind (case resolve_netFind of
                    Inl e \<Rightarrow> bind (warn FissuresWarning ''Initialization of NetworkFinder failed.'')
                               (\<lambda>_. ret self)
                  | Inr v \<Rightarrow> ret (self\<lparr>netFind := attr_of v\<rparr>)) (\<lambda>self.
            bind (case resolve_seisDC of
                    Inl e \<Rightarrow> bind (warn FissuresWarning
                                     ''Initialization of seismogram DataCenter failed.'')
                               (\<lambda>_. ret self)
                  | Inr v \<Rightarrow> ret (self\<lparr>seisDC := attr_of v\<rparr>)) (\<lambda>self.
            bind (lift (getattr ''netFind'' (netFind self))) (\<lambda>nf.
              if \<not> truthy nf
              then bind (lift (getattr ''seisDC'' (seisDC self))) (\<lambda>dc.
                     if \<not> truthy dc
                     then raise (FissuresException
                            ''Neither NetworkFinder nor DataCenter could be initialized.'')
                     else ret self)
              else ret self))))"

subsection \<open>Example data\<close>

definition toy_mseed :: LibMSEED where
  "toy_mseed =
     \<lparr>unpack_steim1 = (\<lambda>vals n swapflag. Inr (map int (if swapflag then rev vals else vals))),
      unpack_steim2 = (\<lambda>vals n swapflag. Inr (map (\<lambda>v. - int v) (if swapflag then rev vals else vals)))\<rparr>"

definition toy_lib :: Lib where
  "toy_lib =
     \<lparr>verify = (\<lambda>tr. if int (length (data tr)) = npts tr then Inr ()
                       else Inl (CollaboratorError ''verify'')),
      trim = (\<lambda>t1 t2 st. Inr st),
      formatFissures = show_int,
      utcdatetime2Fissures = show_int,
      poleZeroFilter2PAZ = (\<lambda>f. \<lparr>poles = pz_poles f, zeros = pz_zeros f, gain = 0,
                                   sensitivity = 0\<rparr>)\<rparr>"

definition toy_channel_id :: "string \<Rightarrow> string \<Rightarrow> string \<Rightarrow> ChannelId" where
  "toy_channel_id sta loc cha =
     \<lparr>cid_network_id = \<lparr>network_code = ''GE''\<rparr>, station_code = sta, site_code = loc,
      channel_code = cha\<rparr>"

definition toy_station :: "string \<Rightarrow> string \<Rightarrow> string \<Rightarrow> Station" where
  "toy_station code t_start t_end =
     \<lparr>sta_id = \<lparr>sta_station_code = code\<rparr>, start_time = t_start, end_time = t_end,
      my_location = \<lparr>elevation_value = 500, elevation_unit_name = ''METER'',
                     loc_type = ''GEOGRAPHIC'', latitude = 49, longitude = 11\<rparr>\<rparr>"

definition toy_instrumentation :: "ChannelId \<Rightarrow> Instrumentation" where
  "toy_instrumentation cid =
     \<lparr>the_response =
        \<lparr>stages = [\<lparr>stage_filters = [\<lparr>filter_d = ''POLEZERO'',
                                        filter_v = \<lparr>pz_poles = [], pz_zeros = [0]\<rparr>\<rparr>],
                     the_normalization = [\<lparr>ao_normalization_factor = 2\<rparr>]\<rparr>],
         sensitivity_factor = (if channel_code cid = ''BHZ'' then 7 else 9)\<rparr>\<rparr>"

definition toy_network :: "Station list \<Rightarrow> NetworkAccess" where
  "toy_network stas =
     \<lparr>retrieve_stations = Inr stas,
      retrieve_for_station = (\<lambda>sid. Inr (map (\<lambda>cha. \<lparr>cha_id = toy_channel_id
                                  (sta_station_code sid) ''  '' cha\<rparr>) [''BHZ'', ''SHZ''])),
      retrieve_channels_by_code = (\<lambda>sta loc cha. Inr [\<lparr>cha_id = toy_channel_id sta loc cha\<rparr>]),
      retrieve_instrumentation = (\<lambda>cid t. Inr (toy_instrumentation cid))\<rparr>"

definition toy_client :: "Station list \<Rightarrow> (RequestFilter \<Rightarrow> LocalSeismogram list) \<Rightarrow> Client" where
  "toy_client stas seis_of =
     \<lparr>byteorder = True, mseed = toy_mseed,
      netFind = Ref \<lparr>retrieve_by_code = (\<lambda>code. if code = ''GE'' then Inr [toy_network stas]
                                               else Inr [])\<rparr>,
      seisDC = Ref \<lparr>retrieve_seismograms = (\<lambda>reqs. Inr (concat (map seis_of reqs)))\<rparr>\<rparr>"

definition toy_chunk :: "int \<Rightarrow> nat list \<Rightarrow> EncodedData" where
  "toy_chunk compr vals =
     \<lparr>byte_order = True, compression = compr, chunk_values = vals,
      chunk_num_points = int (length vals)\<rparr>"

definition toy_seis :: "ChannelId \<Rightarrow> int \<Rightarrow> string \<Rightarrow> EncodedData list \<Rightarrow> LocalSeismogram" where
  "toy_seis cid n unit chunks =
     \<lparr>num_points = n, begin_time = ''20030620T060000.0000Z'', the_unit_base = unit,
      interval_value = 1, power = 0, multi_factor = 1, exponent = 1,
      sei_channel_id = cid, encoded_values = chunks\<rparr>"


section \<open>Properties\<close>

subsection \<open>Sequencing\<close>

lemma bind_Inl [simp]: "bind (Inl e, evs) f = (Inl e, evs)"
  by (simp add: bind_def)

lemma bind_Inr [simp]: "bind (Inr x, evs) f = (fst (f x), evs @ snd (f x))"
  by (simp add: bind_def split: prod.splits)

lemmas io_defs = ret_def raise_def warn_def remote_def lift_def

lemma bind_assoc: "bind (bind m f) g = bind m (\<lambda>x. bind (f x) g)"
  by (auto simp: bind_def split: prod.splits sum.splits)




subsection \<open>Wildcards in the response lookup\<close>

text \<open>C7: a response lookup whose channel code contains the wildcard character fails
  with the exception of line 359 and causes no event: no remote call is made (and no
  warning emitted) before the failure.\<close>

theorem getPAZ_wildcard_no_remote_call:
  "CHR ''*'' \<in> set channel_id \<Longrightarrow>
   getPAZ lib self network_id station_id channel_id datetime =
     (Inl (FissuresException ''Wildcards not allowed in channel_id''), [])"
  by (simp add: getPAZ_def io_defs)

theorem getPAZ_wildcard_no_remote_call_witness:
  "CHR ''*'' \<in> set ''BH*'' \<and>
   getPAZ toy_lib (toy_client [] (\<lambda>r. [])) ''GE'' ''APE'' ''BH*'' 20030620 =
     (Inl (FissuresException ''Wildcards not allowed in channel_id''), [])"
  using getPAZ_wildcard_no_remote_call
    [of "''BH*''" toy_lib "toy_client [] (\<lambda>r. [])" "''GE''" "''APE''" 20030620]
  by simp

subsection \<open>First of a candidate list\<close>



subsection \<open>Construction with a failing service\<close>

text \<open>C8: construction when the resolution of the network finder raises and the
  seismogram data center resolves. The warning is emitted, but the attribute
  \<^verbatim>\<open>netFind\<close> was never assigned, so the test of line 125 fails with AttributeError:
  construction does not complete.\<close>

theorem Client_init_netFind_failure:
  "Client_init little mseed_lib name_service (Inr ()) (Inl e) (Inr (Some dc)) =
     (Inl (AttributeError ''netFind''),
      [Warn FissuresWarning ''Initialization of NetworkFinder failed.''])"
  by (simp add: Client_init_def getattr_def io_defs)

text \<open>The other cases: when only the data center fails, construction completes with
  one warning; when both resolutions raise, the same AttributeError ends construction
  and the exception of line 127 is not reached.\<close>

lemma Client_init_seisDC_failure:
  "Client_init little mseed_lib name_service (Inr ()) (Inr (Some nf)) (Inl e) =
     (Inr \<lparr>byteorder = little, mseed = mseed_lib, netFind = Ref nf, seisDC = Unset\<rparr>,
      [Warn FissuresWarning ''Initialization of seismogram DataCenter failed.''])"
  by (simp add: Client_init_def getattr_def attr_of_def io_defs)

lemma Client_init_both_fail:
  "Client_init little mseed_lib name_service (Inr ()) (Inl e) (Inl e') =
     (Inl (AttributeError ''netFind''),
      [Warn FissuresWarning ''Initialization of NetworkFinder failed.'',
       Warn FissuresWarning ''Initialization of seismogram DataCenter failed.''])"
  by (simp add: Client_init_def getattr_def attr_of_def io_defs)

subsection \<open>Station selection\<close>





subsection \<open>Sampling rate\<close>





subsection \<open>The loops over chunks and seismograms\<close>









subsection \<open>The two branches of getWaveform\<close>


lemma getWaveform_direct:
  assumes "\<not> component_wildcard channel_id"
  shows "getWaveform lib self network_id station_id location_id channel_id start_datetime
           end_datetime getPAZ_flag getCoordinates_flag =
        bind (getChannelObj self network_id station_id location_id channel_id) (\<lambda>channels.
        bind (getSeisObj lib self channels start_datetime end_datetime) (\<lambda>seis.
        bind (lift (build_stream lib self seis [])) (\<lambda>st.
        bind (lift (trim lib start_datetime end_datetime st)) (\<lambda>st.
        bind (if getPAZ_flag
              then
                bind (if CHR ''*'' \<in> set channel_id
                      then (if length channel_id < 3
                            then raise (FissuresException
                                   ''Cannot fetch PAZ with wildcarded band codes.'')
                            else warn FissuresWarning
                                   (''Wildcard in channel_id, trying to look up Z ''
                                      @ ''components PAZ information''))
                      else ret ()) (\<lambda>_.
                bind (getPAZ lib self network_id station_id getPAZ_default_channel_id
                        start_datetime) (\<lambda>resp.
                  ret (map (\<lambda>tr. tr\<lparr>paz := Some resp\<rparr>) st)))
              else ret st) (\<lambda>st.
          if getCoordinates_flag
          then bind (getCoordinates lib self network_id station_id start_datetime) (\<lambda>coords.
                 ret (map (\<lambda>tr. tr\<lparr>coordinates := Some coords\<rparr>) st))
          else ret st)))))"
  using assms by (subst getWaveform.simps) simp







subsection \<open>Evaluation of the example services\<close>

lemma toy_getChannelObj:
  "getChannelObj (toy_client stas seis_of) ''GE'' sta loc cha =
     (Inr [\<lparr>cha_id = toy_channel_id sta (if strip loc = [] then ''  '' else loc) cha\<rparr>],
      [Retrieve_by_code ''GE'',
       Retrieve_channels_by_code sta (if strip loc = [] then ''  '' else loc) cha])"
  by (simp add: getChannelObj_def toy_client_def toy_network_def method_of_def io_defs Let_def)

lemma toy_getSeisObj:
  "getSeisObj toy_lib (toy_client stas seis_of) channels t1 t2 =
     (Inr (concat (map seis_of
             (map (\<lambda>c. \<lparr>req_channel_id = cha_id c, req_start_time = show_int t1,
                          req_end_time = show_int t2\<rparr>) channels))),
      [Retrieve_seismograms
         (map (\<lambda>c. \<lparr>req_channel_id = cha_id c, req_start_time = show_int t1,
                      req_end_time = show_int t2\<rparr>) channels)])"
  by (simp add: getSeisObj_def toy_client_def toy_lib_def method_of_def io_defs Let_def)

definition toy_trace :: "string \<Rightarrow> int list \<Rightarrow> Trace" where
  "toy_trace cha samples =
     \<lparr>starttime = ''20030620T060000.0000Z'', npts = int (length samples),
      sampling_rate = real (length samples), station = ''APE'', network = ''GE'',
      channel = cha, location = [], data = samples, paz = None, coordinates = None\<rparr>"





subsection \<open>Units other than SECOND\<close>









lemma toy_trim: "trim toy_lib t1 t2 st = Inr st"
  by (simp add: toy_lib_def)


subsection \<open>Compression tags\<close>






subsection \<open>Chunks and seismograms\<close>










subsection \<open>The channel requests of a call\<close>



lemma bind_ret: "bind (ret x) f = f x"
  by (simp add: ret_def)

















subsection \<open>Component wildcard\<close>

text \<open>A data center that answers each request with one seismogram of two samples for
  the requested channel.\<close>

definition echo_seis :: "RequestFilter \<Rightarrow> LocalSeismogram list" where
  "echo_seis r = [toy_seis (req_channel_id r) 2 ''SECOND'' [toy_chunk 10 [1, 2]]]"

lemma echo_seis_stream:
  "build_stream toy_lib (toy_client stas seis_of)
     (echo_seis \<lparr>req_channel_id = toy_channel_id ''APE'' ''  '' cha, req_start_time = t1,
                 req_end_time = t2\<rparr>) []
   = Inr [toy_trace cha [1, 2]]"
  by (simp add: echo_seis_def seis2trace_def sampling_rate_of_def decode_chunk_def
        np_concatenate_def toy_lib_def toy_client_def toy_mseed_def toy_seis_def toy_chunk_def
        toy_trace_def toy_channel_id_def strip_def is_space_def Let_def)





subsection \<open>Response attached to the traces\<close>

lemma no_star_not_wildcard: "CHR ''*'' \<notin> set channel_id \<Longrightarrow> \<not> component_wildcard channel_id"
  by (auto simp: component_wildcard_shape)

lemma bind_ret_right: "bind m ret = m"
  by (cases m) (auto simp: bind_def ret_def split: sum.splits)

text \<open>C10: for a channel code without wildcard, the call with the response flag is the
  call without flags, followed by one response lookup whose channel code is the default
  \<open>''BHZ''\<close> of \<^verbatim>\<open>getPAZ\<close> and whose time is the start time of the request; the one
  result is attached to every trace of the stream, whatever the trace's channel; the
  coordinates, when asked for, follow. The requested channel code is not an argument of
  the lookup.\<close>

theorem getWaveform_response_lookup:
  assumes "CHR ''*'' \<notin> set channel_id"
  shows "getWaveform lib self network_id station_id location_id channel_id start_datetime
           end_datetime True getCoordinates_flag =
         bind (getWaveform lib self network_id station_id location_id channel_id
                 start_datetime end_datetime False False) (\<lambda>st.
         bind (getPAZ lib self network_id station_id ''BHZ'' start_datetime) (\<lambda>resp.
           if getCoordinates_flag
           then bind (getCoordinates lib self network_id station_id start_datetime) (\<lambda>coords.
                  ret (map (\<lambda>tr. tr\<lparr>coordinates := Some coords\<rparr>)
                         (map (\<lambda>tr. tr\<lparr>paz := Some resp\<rparr>) st)))
           else ret (map (\<lambda>tr. tr\<lparr>paz := Some resp\<rparr>) st)))"
  using assms
  by (simp add: getWaveform_direct[OF no_star_not_wildcard[OF assms]] bind_assoc bind_ret
        getPAZ_default_channel_id_def)

lemma toy_getPAZ_BHZ:
  "getPAZ toy_lib (toy_client [toy_station ''APE'' ''2000'' ''2010''] seis_of)
     ''GE'' ''APE'' ''BHZ'' 0 =
   (Inr \<lparr>poles = [], zeros = [0], gain = 2, sensitivity = 7\<rparr>,
    [Retrieve_by_code ''GE'', Retrieve_stations,
     Retrieve_for_station \<lparr>sta_station_code = ''APE''\<rparr>,
     Retrieve_instrumentation (toy_channel_id ''APE'' ''  '' ''BHZ'') ''0''])"
  by (simp add: getPAZ_def toy_client_def toy_network_def toy_lib_def toy_station_def
        toy_instrumentation_def toy_channel_id_def method_of_def io_defs Let_def
        show_int_def show_nat.simps)

lemma toy_echo_call_events:
  assumes "\<not> component_wildcard cha"
  shows "getWaveform toy_lib (toy_client stas echo_seis) ''GE'' ''APE'' [] cha 0 600
           False False =
         (Inr [toy_trace cha [1, 2]],
          [Retrieve_by_code ''GE'', Retrieve_channels_by_code ''APE'' ''  '' cha,
           Retrieve_seismograms [\<lparr>req_channel_id = toy_channel_id ''APE'' ''  '' cha,
                                  req_start_time = ''0'', req_end_time = ''600''\<rparr>]])"
  by (simp add: getWaveform_direct[OF assms] toy_getChannelObj toy_getSeisObj toy_trim
        io_defs strip_def echo_seis_stream show_int_def show_nat.simps)

theorem getWaveform_response_lookup_witness:
  "CHR ''*'' \<notin> set ''SHZ''
   \<and> getWaveform toy_lib (toy_client [toy_station ''APE'' ''2000'' ''2010''] echo_seis)
       ''GE'' ''APE'' [] ''SHZ'' 0 600 True False =
     (Inr [(toy_trace ''SHZ'' [1, 2])
             \<lparr>paz := Some \<lparr>poles = [], zeros = [0], gain = 2, sensitivity = 7\<rparr>\<rparr>],
      [Retrieve_by_code ''GE'', Retrieve_channels_by_code ''APE'' ''  '' ''SHZ'',
       Retrieve_seismograms [\<lparr>req_channel_id = toy_channel_id ''APE'' ''  '' ''SHZ'',
                              req_start_time = ''0'', req_end_time = ''600''\<rparr>],
       Retrieve_by_code ''GE'', Retrieve_stations,
       Retrieve_for_station \<lparr>sta_station_code = ''APE''\<rparr>,
       Retrieve_instrumentation (toy_channel_id ''APE'' ''  '' ''BHZ'') ''0''])"
proof -
  have h: "CHR ''*'' \<notin> set ''SHZ''"
    by simp
  have nw: "\<not> component_wildcard ''SHZ''"
    by (simp add: component_wildcard_def Let_def)
  from getWaveform_response_lookup [OF h, of toy_lib
      "toy_client [toy_station ''APE'' ''2000'' ''2010''] echo_seis" "''GE''" "''APE''" "[]"
      0 600 False]
  have "getWaveform toy_lib (toy_client [toy_station ''APE'' ''2000'' ''2010''] echo_seis)
       ''GE'' ''APE'' [] ''SHZ'' 0 600 True False =
     (Inr [(toy_trace ''SHZ'' [1, 2])
             \<lparr>paz := Some \<lparr>poles = [], zeros = [0], gain = 2, sensitivity = 7\<rparr>\<rparr>],
      [Retrieve_by_code ''GE'', Retrieve_channels_by_code ''APE'' ''  '' ''SHZ'',
       Retrieve_seismograms [\<lparr>req_channel_id = toy_channel_id ''APE'' ''  '' ''SHZ'',
                              req_start_time = ''0'', req_end_time = ''600''\<rparr>],
       Retrieve_by_code ''GE'', Retrieve_stations,
       Retrieve_for_station \<lparr>sta_station_code = ''APE''\<rparr>,
       Retrieve_instrumentation (toy_channel_id ''APE'' ''  '' ''BHZ'') ''0''])"
    by (simp add: toy_echo_call_events[OF nw] toy_getPAZ_BHZ ret_def)
  with h show ?thesis by blast
qed

end
